theory Spec2Isabelle
  imports Main "HOL-Library.Word"
begin

section \<open>The Linux platform GPIO driver (drivers/platform/linux/linux_gpio.c)\<close>

text \<open>
  The driver is straight-line C over four system calls and the allocator. The embedding
  threads a \<open>world\<close> through every function: the calls issued so far together with what
  each returned, the two kinds of heap object the driver allocates, and the lines printed.
  What a call returns is not up to the driver, so every function takes an environment
  \<open>env\<close> that answers each call from the history of the calls before it; the theorems
  hold for every environment.
\<close>

subsection \<open>Declarations from error.h and gpio.h\<close>

text \<open>
  Modelled from the spec: error.h is not among the sources. The spec (section 7) gives a
  flat, two-valued status, ok or generic failure; \<open>SUCCESS\<close> and \<open>FAILURE\<close> are its two
  values.
\<close>

datatype status = SUCCESS | FAILURE

text \<open>
  Modelled from the spec: gpio.h is not among the sources. The spec (section 4.5) reads a
  level byte as "0 means low, any non-zero means high"; the low level is the byte 0.
\<close>

definition GPIO_LOW :: "8 word" where
  "GPIO_LOW = 0"

text \<open>
  Modelled from the spec: gpio.h is not among the sources. The high level is a non-zero
  byte (spec section 4.5); no property below depends on which one.
\<close>

definition GPIO_HIGH :: "8 word" where
  "GPIO_HIGH = 1"

text \<open>Pointers are addresses; \<open>NULL\<close> is address 0. File descriptors and the return values
  of system calls are C ints that the driver only compares with 0 and passes on, so they
  are integers here.\<close>

type_synonym addr = int

definition NULL :: addr where
  "NULL = 0"

text \<open>
  Modelled from the spec: gpio.h is not among the sources. The init parameters carry the
  kernel GPIO number (spec section 3), the only field this driver reads. The driver prints
  it with \<open>%d\<close>, so it is a C int: a 32-bit word, read as a signed number by \<open>sint\<close>.
\<close>

record gpio_init_param =
  number :: "32 word"

text \<open>
  Modelled from the spec: gpio.h is not among the sources. The portable descriptor holds
  the pin number (spec section 3) and \<open>extra\<close>, the pointer to the platform descriptor that
  \<open>gpio_get\<close> stores and every other operation follows.
\<close>

record gpio_desc =
  number :: "32 word"
  extra :: addr

text \<open>The platform descriptor, \<open>struct linux_gpio_desc\<close>: the two open file descriptors.\<close>

record linux_gpio_desc =
  direction_fd :: int
  value_fd :: int

subsection \<open>The world outside the driver\<close>

datatype oflag = O_RDONLY | O_WRONLY | O_RDWR

text \<open>A call into libc. \<open>Write fd bs\<close> is \<open>write(fd, buf, n)\<close> where \<open>bs\<close> are the \<open>n\<close>
  bytes at \<open>buf\<close>; \<open>Read fd n\<close> is \<open>read(fd, buf, n)\<close>.\<close>

datatype call =
    Malloc_gpio_desc
  | Malloc_linux_gpio_desc
  | Free addr
  | Open string oflag
  | Write int string
  | Read int nat
  | Close int

type_synonym event = "call \<times> int"

record world =
  trace :: "event list"
  descs :: "addr \<rightharpoonup> gpio_desc"
  linux_descs :: "addr \<rightharpoonup> linux_gpio_desc"
  stdout :: "string list"

text \<open>The environment: \<open>reply\<close> is what a call returns after the given history, \<open>rdata\<close>
  the byte a read transfers when it transfers one, and \<open>indet\<close> the indeterminate content
  of the \<open>k\<close>-th cell of storage that nothing has initialised yet.\<close>

record env =
  reply :: "event list \<Rightarrow> call \<Rightarrow> int"
  rdata :: "event list \<Rightarrow> char"
  indet :: "event list \<Rightarrow> nat \<Rightarrow> int"

definition libc :: "env \<Rightarrow> call \<Rightarrow> world \<Rightarrow> int \<times> world" where
  "libc e c w =
     (let r = reply e (trace w) c in (r, w\<lparr>trace := trace w @ [(c, r)]\<rparr>))"

definition sys_open :: "env \<Rightarrow> string \<Rightarrow> oflag \<Rightarrow> world \<Rightarrow> int \<times> world" where
  "sys_open e path fl w = libc e (Open path fl) w"

text \<open>\<open>write(fd, buf, n)\<close> hands over the first \<open>n\<close> bytes of the buffer.\<close>

definition sys_write :: "env \<Rightarrow> int \<Rightarrow> string \<Rightarrow> nat \<Rightarrow> world \<Rightarrow> int \<times> world" where
  "sys_write e fd buf n w = libc e (Write fd (take n buf)) w"

definition sys_close :: "env \<Rightarrow> int \<Rightarrow> world \<Rightarrow> int \<times> world" where
  "sys_close e fd w = libc e (Close fd) w"

text \<open>\<open>read(fd, &data, 1)\<close>: the one-byte buffer is overwritten only when the call
  transfers a byte, that is when it returns a positive count.\<close>

definition sys_read1 :: "env \<Rightarrow> int \<Rightarrow> char \<Rightarrow> world \<Rightarrow> (int \<times> char) \<times> world" where
  "sys_read1 e fd data w =
     (let (r, w') = libc e (Read fd 1) w
      in ((r, if 1 \<le> r then rdata e (trace w) else data), w'))"

text \<open>\<open>malloc\<close> returns \<open>NULL\<close> or the address of a block whose content is indeterminate.\<close>

definition malloc_gpio_desc :: "env \<Rightarrow> world \<Rightarrow> addr \<times> world" where
  "malloc_gpio_desc e w =
     (let (p, w') = libc e Malloc_gpio_desc w
      in if p = NULL then (p, w')
         else (p, w'\<lparr>descs := (descs w')(p \<mapsto>
                 \<lparr>number = word_of_int (indet e (trace w) 0), extra = indet e (trace w) 1\<rparr>)\<rparr>))"

definition malloc_linux_gpio_desc :: "env \<Rightarrow> world \<Rightarrow> addr \<times> world" where
  "malloc_linux_gpio_desc e w =
     (let (p, w') = libc e Malloc_linux_gpio_desc w
      in if p = NULL then (p, w')
         else (p, w'\<lparr>linux_descs := (linux_descs w')(p \<mapsto>
                 \<lparr>direction_fd = indet e (trace w) 0, value_fd = indet e (trace w) 1\<rparr>)\<rparr>))"

text \<open>\<open>free\<close> returns nothing; the trace records it with 0.\<close>

definition free_gpio_desc :: "addr \<Rightarrow> world \<Rightarrow> world" where
  "free_gpio_desc p w =
     w\<lparr>trace := trace w @ [(Free p, 0)], descs := (descs w)(p := None)\<rparr>"

definition free_linux_gpio_desc :: "addr \<Rightarrow> world \<Rightarrow> world" where
  "free_linux_gpio_desc p w =
     w\<lparr>trace := trace w @ [(Free p, 0)], linux_descs := (linux_descs w)(p := None)\<rparr>"

definition printf :: "string \<Rightarrow> world \<Rightarrow> world" where
  "printf s w = w\<lparr>stdout := stdout w @ [s]\<rparr>"

subsection \<open>Strings\<close>

text \<open>A C string literal is its characters followed by a NUL byte.\<close>

definition NUL :: char where
  "NUL = CHR 0x00"

definition cstr :: "string \<Rightarrow> string" where
  "cstr s = s @ [NUL]"

definition nlcr :: string where
  "nlcr = [CHR 0x0A, CHR 0x0D]"

text \<open>\<open>sprintf(buf, "%d", i)\<close>: the decimal digits of \<open>i\<close>, most significant first, after a
  minus sign when \<open>i\<close> is negative; the call returns the number of characters.\<close>

definition digit :: "nat \<Rightarrow> char" where
  "digit d = char_of (48 + d)"

fun decimal :: "nat \<Rightarrow> string" where
  "decimal n = (if n < 10 then [digit n] else decimal (n div 10) @ [digit (n mod 10)])"

declare decimal.simps [simp del]

definition sprintf_d :: "int \<Rightarrow> string" where
  "sprintf_d i = (if i < 0 then CHR ''-'' # decimal (nat (- i)) else decimal (nat i))"

subsection \<open>gpio_direction_input\<close>

text \<open>Every operation on a handle starts by dereferencing \<open>desc\<close> and \<open>desc->extra\<close>. Where
  one of them does not point to a live object the C has no defined behaviour, and the
  model returns \<open>None\<close>.\<close>

definition gpio_direction_input :: "env \<Rightarrow> world \<Rightarrow> addr \<Rightarrow> (status \<times> world) option" where
  "gpio_direction_input e w desc =
     (case descs w desc of None \<Rightarrow> None | Some d \<Rightarrow>
      (case linux_descs w (extra d) of None \<Rightarrow> None | Some linux_desc \<Rightarrow>
         Some (let (ret, w) = sys_write e (direction_fd linux_desc) (cstr ''in'') 3 w
               in if ret < 0
                  then (FAILURE, printf (''gpio_direction_input: Can't write to file'' @ nlcr) w)
                  else (SUCCESS, w))))"

subsection \<open>gpio_set_value and gpio_direction_output\<close>

definition gpio_set_value :: "env \<Rightarrow> world \<Rightarrow> addr \<Rightarrow> 8 word \<Rightarrow> (status \<times> world) option" where
  "gpio_set_value e w desc val =
     (case descs w desc of None \<Rightarrow> None | Some d \<Rightarrow>
      (case linux_descs w (extra d) of None \<Rightarrow> None | Some linux_desc \<Rightarrow>
         Some (let (ret, w) =
                     (if val \<noteq> 0 then sys_write e (value_fd linux_desc) (cstr ''1'') 2 w
                      else sys_write e (value_fd linux_desc) (cstr ''0'') 2 w)
               in if ret < 0
                  then (FAILURE, printf (''gpio_set_value: Can't write to file'' @ nlcr) w)
                  else (SUCCESS, w))))"

definition gpio_direction_output :: "env \<Rightarrow> world \<Rightarrow> addr \<Rightarrow> 8 word \<Rightarrow> (status \<times> world) option" where
  "gpio_direction_output e w desc val =
     (case descs w desc of None \<Rightarrow> None | Some d \<Rightarrow>
      (case linux_descs w (extra d) of None \<Rightarrow> None | Some linux_desc \<Rightarrow>
         (let (ret, w) = sys_write e (direction_fd linux_desc) (cstr ''out'') 4 w
          in if ret < 0
             then Some (FAILURE, printf (''gpio_direction_output: Can't write to file'' @ nlcr) w)
             else (case gpio_set_value e w desc val of None \<Rightarrow> None
                   | Some (ret, w) \<Rightarrow>
                       if ret \<noteq> SUCCESS
                       then Some (FAILURE, printf (''gpio_direction_output: Can't set value'' @ nlcr) w)
                       else Some (SUCCESS, w)))))"

subsection \<open>gpio_get_value\<close>

text \<open>The local \<open>char data\<close> is not initialised: before the read it holds whatever the
  environment left there. The third component of the result is \<open>*value\<close> after the call,
  \<open>val\<close> is what it held before.\<close>

definition gpio_get_value :: "env \<Rightarrow> world \<Rightarrow> addr \<Rightarrow> 8 word \<Rightarrow> (status \<times> world \<times> 8 word) option" where
  "gpio_get_value e w desc val =
     (case descs w desc of None \<Rightarrow> None | Some d \<Rightarrow>
      (case linux_descs w (extra d) of None \<Rightarrow> None | Some linux_desc \<Rightarrow>
         Some (let data = char_of (indet e (trace w) 0);
                   ((ret, data), w) = sys_read1 e (value_fd linux_desc) data w
               in if ret < 0
                  then (FAILURE, printf (''gpio_get_value: Can't read from file'' @ nlcr) w, val)
                  else if data = CHR ''0'' then (SUCCESS, w, GPIO_LOW)
                  else (SUCCESS, w, GPIO_HIGH))))"

subsection \<open>gpio_get and gpio_get_optional\<close>

text \<open>The three labels at the end of \<open>gpio_get\<close>; each falls through to the next. The
  last argument but one, \<open>desc\<close>, is what the caller's \<open>*desc\<close> holds; no label writes it.
  \<open>get_close\<close> takes as \<open>dfd\<close> the descriptor it finds in \<open>linux_desc->direction_fd\<close>, which
  is the one \<open>gpio_get\<close> stored there just before.\<close>

definition get_free_desc :: "addr \<Rightarrow> addr \<Rightarrow> world \<Rightarrow> status \<times> world \<times> addr" where
  "get_free_desc descriptor desc w = (FAILURE, free_gpio_desc descriptor w, desc)"

definition get_free :: "addr \<Rightarrow> addr \<Rightarrow> addr \<Rightarrow> world \<Rightarrow> status \<times> world \<times> addr" where
  "get_free linux_desc descriptor desc w =
     get_free_desc descriptor desc (free_linux_gpio_desc linux_desc w)"

definition get_close :: "env \<Rightarrow> int \<Rightarrow> addr \<Rightarrow> addr \<Rightarrow> addr \<Rightarrow> world \<Rightarrow> status \<times> world \<times> addr" where
  "get_close e dfd linux_desc descriptor desc w =
     get_free linux_desc descriptor desc (snd (sys_close e dfd w))"

definition set_direction_fd :: "addr \<Rightarrow> int \<Rightarrow> world \<Rightarrow> world" where
  "set_direction_fd p fd w =
     w\<lparr>linux_descs := (case linux_descs w p of None \<Rightarrow> linux_descs w
                        | Some l \<Rightarrow> (linux_descs w)(p \<mapsto> l\<lparr>direction_fd := fd\<rparr>))\<rparr>"

definition set_value_fd :: "addr \<Rightarrow> int \<Rightarrow> world \<Rightarrow> world" where
  "set_value_fd p fd w =
     w\<lparr>linux_descs := (case linux_descs w p of None \<Rightarrow> linux_descs w
                        | Some l \<Rightarrow> (linux_descs w)(p \<mapsto> l\<lparr>value_fd := fd\<rparr>))\<rparr>"

text \<open>The two attribute paths, as \<open>sprintf\<close> formats them into the 64-byte buffer \<open>path\<close>.
  The buffer itself is not modelled: what is formatted always fits it (lemma
  \<open>path_fits_buffer\<close> below).\<close>

definition direction_path :: "32 word \<Rightarrow> string" where
  "direction_path n = ''/sys/class/gpio/gpio'' @ sprintf_d (sint n) @ ''/direction''"

definition value_path :: "32 word \<Rightarrow> string" where
  "value_path n = ''/sys/class/gpio/gpio'' @ sprintf_d (sint n) @ ''/value''"

text \<open>\<open>desc\<close> is the content of the caller's \<open>*desc\<close> before the call, the third component
  of the result its content after. \<open>descriptor->number\<close> is read back as \<open>n\<close>, the value
  stored into it from \<open>param->number\<close>.\<close>

definition gpio_get :: "env \<Rightarrow> world \<Rightarrow> addr \<Rightarrow> gpio_init_param \<Rightarrow> status \<times> world \<times> addr" where
  "gpio_get e w desc param =
     (let (descriptor, w) = malloc_gpio_desc e w in
      if descriptor = NULL then (FAILURE, w, desc)
      else
      let (linux_desc, w) = malloc_linux_gpio_desc e w in
      if linux_desc = NULL then get_free_desc descriptor desc w
      else
      let n = gpio_init_param.number param;
          w = w\<lparr>descs := (descs w)(descriptor \<mapsto> \<lparr>number = n, extra = linux_desc\<rparr>)\<rparr>;
          (fd, w) = sys_open e ''/sys/class/gpio/export'' O_WRONLY w in
      if fd < 0
      then get_free linux_desc descriptor desc (printf (''gpio_get: Can't open device'' @ nlcr) w)
      else
      let path = cstr (sprintf_d (sint n));
          len = length (sprintf_d (sint n));
          (ret, w) = sys_write e fd path len w in
      if ret < 0
      then get_free linux_desc descriptor desc
             (snd (sys_close e fd (printf (''gpio_get: Can't write to file'' @ nlcr) w)))
      else
      let (ret, w) = sys_close e fd w in
      if ret < 0
      then get_free linux_desc descriptor desc (printf (''gpio_get: Can't close device'' @ nlcr) w)
      else
      let path = direction_path n;
          (dfd, w) = sys_open e path O_WRONLY w;
          w = set_direction_fd linux_desc dfd w in
      if dfd < 0
      then get_free linux_desc descriptor desc (printf (''gpio_get: Can't open '' @ path @ nlcr) w)
      else
      let path = value_path n;
          (vfd, w) = sys_open e path O_WRONLY w;
          w = set_value_fd linux_desc vfd w in
      if vfd < 0
      then get_close e dfd linux_desc descriptor desc
             (printf (''gpio_get: Can't open '' @ path @ nlcr) w)
      else (SUCCESS, w, descriptor))"

definition gpio_get_optional :: "env \<Rightarrow> world \<Rightarrow> addr \<Rightarrow> gpio_init_param \<Rightarrow> status \<times> world \<times> addr" where
  "gpio_get_optional e w desc param =
     (let (ret, w, desc) = gpio_get e w desc param in (SUCCESS, w, desc))"

subsection \<open>gpio_remove\<close>

definition gpio_remove :: "env \<Rightarrow> world \<Rightarrow> addr \<Rightarrow> (status \<times> world) option" where
  "gpio_remove e w desc =
     (case descs w desc of None \<Rightarrow> None | Some d \<Rightarrow>
      (case linux_descs w (extra d) of None \<Rightarrow> None | Some linux_desc \<Rightarrow>
         Some (
           let (ret, w) = sys_close e (direction_fd linux_desc) w in
           if ret < 0 then (FAILURE, printf (''gpio_remove: Can't close device'' @ nlcr) w)
           else
           let (ret, w) = sys_close e (value_fd linux_desc) w in
           if ret < 0 then (FAILURE, printf (''gpio_remove: Can't close device'' @ nlcr) w)
           else
           let (fd, w) = sys_open e ''/sys/class/gpio/unexport'' O_WRONLY w in
           if fd < 0 then (FAILURE, printf (''gpio_remove: Can't open device'' @ nlcr) w)
           else
           let path = cstr (sprintf_d (sint (number d)));
               len = length (sprintf_d (sint (number d)));
               (ret, w) = sys_write e fd path len w in
           if ret < 0 then (FAILURE, printf (''gpio_remove: Can't write to file'' @ nlcr) w)
           else
           let (ret, w) = sys_close e fd w in
           if ret < 0 then (FAILURE, printf (''gpio_remove: Can't close device'' @ nlcr) w)
           else (SUCCESS, free_gpio_desc desc (free_linux_gpio_desc (extra d) w)))))"

subsection \<open>Reading a decimal string back\<close>

text \<open>The number a string of ASCII digits denotes, most significant digit first. It is
  what the kernel's parser makes of the bytes written to \<open>export\<close> and \<open>unexport\<close>, and
  serves to say that \<open>sprintf_d\<close> wrote the decimal representation of its argument.\<close>

definition digits_value :: "string \<Rightarrow> nat" where
  "digits_value s = foldl (\<lambda>a c. 10 * a + (of_char c - 48)) 0 s"

subsection \<open>Concrete environments and worlds\<close>

text \<open>An environment that answers the calls from a script, one reply per call, and 0 once
  the script is used up; a read delivers the byte \<open>b\<close>, and uninitialised storage holds
  \<open>j\<close>.\<close>

definition scripted :: "int list \<Rightarrow> char \<Rightarrow> int \<Rightarrow> env" where
  "scripted rs b j =
     \<lparr>reply = (\<lambda>h c. if length h < length rs then rs ! length h else 0),
      rdata = (\<lambda>h. b), indet = (\<lambda>h k. j)\<rparr>"

definition world0 :: world where
  "world0 = \<lparr>trace = [], descs = Map.empty, linux_descs = Map.empty, stdout = []\<rparr>"

definition pin17 :: gpio_init_param where
  "pin17 = \<lparr>gpio_init_param.number = 17\<rparr>"

text \<open>A world that holds one valid handle at address 100: pin 17, with the direction
  attribute open as descriptor 4 and the value attribute as descriptor 5.\<close>

definition desc17 :: gpio_desc where
  "desc17 = \<lparr>number = 17, extra = 200\<rparr>"

definition linux17 :: linux_gpio_desc where
  "linux17 = \<lparr>direction_fd = 4, value_fd = 5\<rparr>"

definition world17 :: world where
  "world17 = \<lparr>trace = [], descs = [100 \<mapsto> desc17], linux_descs = [200 \<mapsto> linux17],
               stdout = []\<rparr>"


definition refused17 :: world where
  "refused17 =
     \<lparr>trace = [(Malloc_gpio_desc, 100), (Malloc_linux_gpio_desc, 200),
               (Open ''/sys/class/gpio/export'' O_WRONLY, 3), (Write 3 ''17'', 2), (Close 3, 0),
               (Open ''/sys/class/gpio/gpio17/direction'' O_WRONLY, 4),
               (Open ''/sys/class/gpio/gpio17/value'' O_WRONLY, -1),
               (Close 4, 0), (Free 200, 0), (Free 100, 0)],
      descs = Map.empty, linux_descs = Map.empty,
      stdout = [''gpio_get: Can't open /sys/class/gpio/gpio17/value'' @ nlcr]\<rparr>"

subsection \<open>Failing calls\<close>


section \<open>Properties\<close>

lemmas prim_defs = libc_def sys_open_def sys_write_def sys_close_def sys_read1_def
  malloc_gpio_desc_def malloc_linux_gpio_desc_def free_gpio_desc_def free_linux_gpio_desc_def
  printf_def

lemmas get_defs = gpio_get_def get_free_desc_def get_free_def get_close_def
  set_direction_fd_def set_value_fd_def

lemma world17_desc: "descs world17 100 = Some desc17"
  by (simp add: world17_def)

lemma world17_linux: "linux_descs world17 (extra desc17) = Some linux17"
  by (simp add: world17_def desc17_def)

subsection \<open>What sprintf writes for a non-negative number\<close>

lemma digit_simps:
  "digit 0 = CHR ''0''" "digit (Suc 0) = CHR ''1''" "digit 1 = CHR ''1''"
  "digit 2 = CHR ''2''" "digit 3 = CHR ''3''" "digit 4 = CHR ''4''" "digit 5 = CHR ''5''"
  "digit 6 = CHR ''6''" "digit 7 = CHR ''7''" "digit 8 = CHR ''8''" "digit 9 = CHR ''9''"
  by (simp_all add: digit_def char_of_def bit_0)

lemma of_char_digit: "d < 10 \<Longrightarrow> of_char (digit d) = 48 + d"
  by (simp add: digit_def)

lemma digit_in_range: "d < 10 \<Longrightarrow> digit d \<in> set ''0123456789''"
proof -
  assume "d < 10"
  then have "d \<in> {0, 1, 2, 3, 4, 5, 6, 7, 8, 9}" by auto
  then show ?thesis by (auto simp: digit_simps)
qed

lemma decimal_digits: "c \<in> set (decimal n) \<Longrightarrow> c \<in> set ''0123456789''"
proof (induction n rule: decimal.induct)
  case (1 n)
  show ?case
  proof (cases "n < 10")
    case True
    with "1.prems" show ?thesis
      using digit_in_range [of n] by (simp add: decimal.simps [of n])
  next
    case False
    with "1.prems" have "c \<in> set (decimal (n div 10)) \<or> c = digit (n mod 10)"
      by (auto simp: decimal.simps [of n])
    then show ?thesis
      using "1.IH" False digit_in_range [of "n mod 10"] by auto
  qed
qed

lemma digits_value_decimal: "digits_value (decimal n) = n"
proof (induction n rule: decimal.induct)
  case (1 n)
  show ?case
  proof (cases "n < 10")
    case True
    then show ?thesis
      by (simp add: decimal.simps [of n] digits_value_def of_char_digit)
  next
    case False
    then have "digits_value (decimal (n div 10)) = n div 10"
      using "1.IH" by simp
    with False show ?thesis
      by (simp add: decimal.simps [of n] digits_value_def of_char_digit)
  qed
qed

lemma decimal_length_upper: "n < 10 ^ length (decimal n)"
proof (induction n rule: decimal.induct)
  case (1 n)
  show ?case
  proof (cases "n < 10")
    case True
    then show ?thesis by (simp add: decimal.simps [of n])
  next
    case False
    then have "n div 10 < 10 ^ length (decimal (n div 10))"
      using "1.IH" by simp
    then have "n < 10 * 10 ^ length (decimal (n div 10))" by arith
    with False show ?thesis by (simp add: decimal.simps [of n])
  qed
qed

lemma decimal_length_lower: "length (decimal n) = 1 \<or> 10 ^ (length (decimal n) - 1) \<le> n"
proof (induction n rule: decimal.induct)
  case (1 n)
  show ?case
  proof (cases "n < 10")
    case True
    then show ?thesis by (simp add: decimal.simps [of n])
  next
    case False
    then have ih: "length (decimal (n div 10)) = 1 \<or>
        10 ^ (length (decimal (n div 10)) - 1) \<le> n div 10"
      using "1.IH" by simp
    have pos: "0 < length (decimal (n div 10))"
      by (subst decimal.simps) simp
    from ih have "10 ^ (length (decimal (n div 10)) - 1) \<le> n div 10"
    proof
      assume "length (decimal (n div 10)) = 1"
      with False show ?thesis by simp
    qed
    then have "10 * 10 ^ (length (decimal (n div 10)) - 1) \<le> n" by arith
    moreover have "10 * 10 ^ (length (decimal (n div 10)) - 1) =
        (10::nat) ^ length (decimal (n div 10))"
      using pos by (cases "length (decimal (n div 10))") simp_all
    ultimately show ?thesis using False by (simp add: decimal.simps [of n])
  qed
qed

lemma sprintf_d_nonneg:
  assumes "0 \<le> i"
  shows "(\<forall>c \<in> set (sprintf_d i). c \<in> set ''0123456789'') \<and>
         int (digits_value (sprintf_d i)) = i \<and>
         nat i < 10 ^ length (sprintf_d i) \<and>
         (length (sprintf_d i) = 1 \<or> 10 ^ (length (sprintf_d i) - 1) \<le> nat i)"
proof -
  from assms have eq: "sprintf_d i = decimal (nat i)"
    by (simp add: sprintf_d_def)
  show ?thesis
    unfolding eq
    using assms decimal_digits [of _ "nat i"] digits_value_decimal [of "nat i"]
      decimal_length_upper [of "nat i"] decimal_length_lower [of "nat i"]
    by auto
qed

lemma sprintf_d_17: "sprintf_d 17 = ''17''"
  by (simp add: sprintf_d_def decimal.simps digit_simps)

text \<open>Every string the driver formats, with its terminating NUL, fits the 64-byte
  \<open>path\<close> buffer: a C int prints as at most eleven characters.\<close>

lemma decimal_length_le:
  assumes "m < 10 ^ k" and "0 < k"
  shows "length (decimal m) \<le> k"
proof -
  from decimal_length_lower [of m] show ?thesis
  proof
    assume "length (decimal m) = 1"
    with \<open>0 < k\<close> show ?thesis by simp
  next
    assume "10 ^ (length (decimal m) - 1) \<le> m"
    from this \<open>m < 10 ^ k\<close> have "(10::nat) ^ (length (decimal m) - 1) < 10 ^ k"
      by (rule le_less_trans)
    then have "length (decimal m) - 1 < k" by simp
    then show ?thesis by simp
  qed
qed

lemma sprintf_d_int_length: "length (sprintf_d (sint (n :: 32 word))) \<le> 11"
proof -
  have lo: "- (2 ^ 31) \<le> sint n" and hi: "sint n < 2 ^ 31"
    using sint_ge [of n] sint_lt [of n] by simp_all
  show ?thesis
  proof (cases "sint n < 0")
    case True
    with lo have "nat (- sint n) < 10 ^ 10" by simp
    then have "length (decimal (nat (- sint n))) \<le> 10"
      by (rule decimal_length_le) simp
    with True show ?thesis by (simp add: sprintf_d_def)
  next
    case False
    with hi have "nat (sint n) < 10 ^ 10" by simp
    then have "length (decimal (nat (sint n))) \<le> 10"
      by (rule decimal_length_le) simp
    with False show ?thesis by (simp add: sprintf_d_def)
  qed
qed

lemma path_fits_buffer:
  "length (cstr (sprintf_d (sint (n :: 32 word)))) \<le> 64"
  "length (cstr (direction_path n)) \<le> 64"
  "length (cstr (value_path n)) \<le> 64"
  using sprintf_d_int_length [of n]
  by (simp_all add: cstr_def direction_path_def value_path_def)

subsection \<open>Writing the direction and the value\<close>

text \<open>
  C7. On a valid handle, \<open>gpio_direction_input\<close> issues one call, a write to the direction
  descriptor of exactly the three bytes \<open>i\<close>, \<open>n\<close>, NUL, and returns \<open>SUCCESS\<close> if and only if
  that write returned a non-negative count, \<open>FAILURE\<close> otherwise.
\<close>

theorem gpio_direction_input_writes_in:
  assumes "descs w desc = Some d" and "linux_descs w (extra d) = Some l"
  shows "\<exists>st w' r. gpio_direction_input e w desc = Some (st, w') \<and>
           r = reply e (trace w) (Write (direction_fd l) [CHR ''i'', CHR ''n'', CHR 0x00]) \<and>
           trace w' = trace w @ [(Write (direction_fd l) [CHR ''i'', CHR ''n'', CHR 0x00], r)] \<and>
           (st = SUCCESS \<longleftrightarrow> 0 \<le> r) \<and> (st = FAILURE \<longleftrightarrow> r < 0)"
  using assms by (simp add: gpio_direction_input_def prim_defs cstr_def NUL_def Let_def)

theorem gpio_direction_input_writes_in_witness:
  "descs world17 100 = Some desc17 \<and> linux_descs world17 (extra desc17) = Some linux17 \<and>
   (\<exists>st w' r. gpio_direction_input (scripted [-1] (CHR ''1'') 0) world17 100 = Some (st, w') \<and>
      r = reply (scripted [-1] (CHR ''1'') 0) (trace world17)
            (Write (direction_fd linux17) [CHR ''i'', CHR ''n'', CHR 0x00]) \<and>
      trace w' = trace world17 @
        [(Write (direction_fd linux17) [CHR ''i'', CHR ''n'', CHR 0x00], r)] \<and>
      (st = SUCCESS \<longleftrightarrow> 0 \<le> r) \<and> (st = FAILURE \<longleftrightarrow> r < 0))"
  using world17_desc world17_linux
    gpio_direction_input_writes_in [OF world17_desc world17_linux, of "scripted [-1] (CHR ''1'') 0"]
  by simp

text \<open>
  C5. On a valid handle, \<open>gpio_set_value\<close> issues one call, a write to the value descriptor
  of exactly the two bytes \<open>1\<close>, NUL when the value is non-zero and \<open>0\<close>, NUL when it is zero,
  and returns \<open>SUCCESS\<close> if and only if that write returned a non-negative count, \<open>FAILURE\<close>
  otherwise.
\<close>

theorem gpio_set_value_writes_level:
  assumes "descs w desc = Some d" and "linux_descs w (extra d) = Some l"
  shows "\<exists>st w' r. gpio_set_value e w desc v = Some (st, w') \<and>
           r = reply e (trace w) (Write (value_fd l)
              (if v \<noteq> 0 then [CHR ''1'', CHR 0x00] else [CHR ''0'', CHR 0x00])) \<and>
           trace w' = trace w @ [(Write (value_fd l)
              (if v \<noteq> 0 then [CHR ''1'', CHR 0x00] else [CHR ''0'', CHR 0x00]), r)] \<and>
           (st = SUCCESS \<longleftrightarrow> 0 \<le> r) \<and> (st = FAILURE \<longleftrightarrow> r < 0)"
  using assms by (simp add: gpio_set_value_def prim_defs cstr_def NUL_def Let_def)

theorem gpio_set_value_writes_level_witness:
  "descs world17 100 = Some desc17 \<and> linux_descs world17 (extra desc17) = Some linux17 \<and>
   (\<exists>st w' r. gpio_set_value (scripted [2] (CHR ''1'') 0) world17 100 7 = Some (st, w') \<and>
      r = reply (scripted [2] (CHR ''1'') 0) (trace world17) (Write (value_fd linux17)
              (if (7::8 word) \<noteq> 0 then [CHR ''1'', CHR 0x00] else [CHR ''0'', CHR 0x00])) \<and>
      trace w' = trace world17 @ [(Write (value_fd linux17)
              (if (7::8 word) \<noteq> 0 then [CHR ''1'', CHR 0x00] else [CHR ''0'', CHR 0x00]), r)] \<and>
      (st = SUCCESS \<longleftrightarrow> 0 \<le> r) \<and> (st = FAILURE \<longleftrightarrow> r < 0))"
  using world17_desc world17_linux
    gpio_set_value_writes_level [OF world17_desc world17_linux, of "scripted [2] (CHR ''1'') 0" 7]
  by simp

text \<open>
  C6. On a valid handle, \<open>gpio_direction_output\<close> first writes exactly the four bytes \<open>o\<close>,
  \<open>u\<close>, \<open>t\<close>, NUL to the direction descriptor. When that write fails the result is \<open>FAILURE\<close>
  and nothing more is called; otherwise \<open>gpio_set_value\<close> runs next, on the same handle with
  the caller's value, and its status is the status of the whole operation. So the result is
  \<open>SUCCESS\<close> exactly when both steps succeed, and \<open>FAILURE\<close> when either fails.
\<close>

theorem gpio_direction_output_writes_out_then_sets:
  assumes "descs w desc = Some d" and "linux_descs w (extra d) = Some l"
  shows "\<exists>st w' r1 w1.
           gpio_direction_output e w desc v = Some (st, w') \<and>
           r1 = reply e (trace w)
                  (Write (direction_fd l) [CHR ''o'', CHR ''u'', CHR ''t'', CHR 0x00]) \<and>
           w1 = w\<lparr>trace := trace w @
                  [(Write (direction_fd l) [CHR ''o'', CHR ''u'', CHR ''t'', CHR 0x00], r1)]\<rparr> \<and>
           (r1 < 0 \<longrightarrow> st = FAILURE \<and> trace w' = trace w1) \<and>
           (0 \<le> r1 \<longrightarrow> (\<exists>w2. gpio_set_value e w1 desc v = Some (st, w2) \<and> trace w' = trace w2)) \<and>
           (st = SUCCESS \<longleftrightarrow> 0 \<le> r1 \<and> (\<exists>w2. gpio_set_value e w1 desc v = Some (SUCCESS, w2)))"
proof -
  let ?r1 = "reply e (trace w) (Write (direction_fd l) [CHR ''o'', CHR ''u'', CHR ''t'', CHR 0x00])"
  let ?w1 = "w\<lparr>trace := trace w @
                  [(Write (direction_fd l) [CHR ''o'', CHR ''u'', CHR ''t'', CHR 0x00], ?r1)]\<rparr>"
  have valid1: "descs ?w1 desc = Some d" "linux_descs ?w1 (extra d) = Some l"
    using assms by simp_all
  have "\<exists>x. gpio_set_value e ?w1 desc v = Some x"
    using valid1 by (simp add: gpio_set_value_def)
  then obtain st2 w2 where sv: "gpio_set_value e ?w1 desc v = Some (st2, w2)"
    by force
  show ?thesis
  proof (cases "?r1 < 0")
    case True
    then have "gpio_direction_output e w desc v =
        Some (FAILURE, printf (''gpio_direction_output: Can't write to file'' @ nlcr) ?w1)"
      using assms
      by (simp add: gpio_direction_output_def sys_write_def libc_def cstr_def NUL_def Let_def)
    with True show ?thesis
      by (intro exI [of _ FAILURE]
            exI [of _ "printf (''gpio_direction_output: Can't write to file'' @ nlcr) ?w1"]
            exI [of _ ?r1] exI [of _ ?w1]) (simp add: printf_def)
  next
    case False
    then have "gpio_direction_output e w desc v =
        Some (st2, if st2 \<noteq> SUCCESS
                   then printf (''gpio_direction_output: Can't set value'' @ nlcr) w2 else w2)"
      using assms sv
      by (cases st2)
        (simp_all add: gpio_direction_output_def sys_write_def libc_def cstr_def NUL_def Let_def)
    with False sv show ?thesis
      by (intro exI [of _ st2]
            exI [of _ "if st2 \<noteq> SUCCESS
                   then printf (''gpio_direction_output: Can't set value'' @ nlcr) w2 else w2"]
            exI [of _ ?r1] exI [of _ ?w1]) (simp add: printf_def)
  qed
qed

theorem gpio_direction_output_writes_out_then_sets_witness:
  "descs world17 100 = Some desc17 \<and> linux_descs world17 (extra desc17) = Some linux17 \<and>
   (\<exists>st w' r1 w1.
      gpio_direction_output (scripted [4, -1] (CHR ''1'') 0) world17 100 1 = Some (st, w') \<and>
      r1 = reply (scripted [4, -1] (CHR ''1'') 0) (trace world17)
             (Write (direction_fd linux17) [CHR ''o'', CHR ''u'', CHR ''t'', CHR 0x00]) \<and>
      w1 = world17\<lparr>trace := trace world17 @
             [(Write (direction_fd linux17) [CHR ''o'', CHR ''u'', CHR ''t'', CHR 0x00], r1)]\<rparr> \<and>
      (r1 < 0 \<longrightarrow> st = FAILURE \<and> trace w' = trace w1) \<and>
      (0 \<le> r1 \<longrightarrow> (\<exists>w2. gpio_set_value (scripted [4, -1] (CHR ''1'') 0) w1 100 1 = Some (st, w2) \<and>
                        trace w' = trace w2)) \<and>
      (st = SUCCESS \<longleftrightarrow> 0 \<le> r1 \<and>
         (\<exists>w2. gpio_set_value (scripted [4, -1] (CHR ''1'') 0) w1 100 1 = Some (SUCCESS, w2))))"
  using world17_desc world17_linux
    gpio_direction_output_writes_out_then_sets [OF world17_desc world17_linux,
      of "scripted [4, -1] (CHR ''1'') 0" 1]
  by simp

subsection \<open>Reading the value\<close>

text \<open>
  C4. On a valid handle, \<open>gpio_get_value\<close> issues one call, a read of one byte from the
  value descriptor. When the read returns a non-negative count the result is \<open>SUCCESS\<close> and
  the output holds the level decoded from the one-byte local buffer, \<open>GPIO_LOW\<close> for the
  character \<open>0\<close> and \<open>GPIO_HIGH\<close> for any other byte; when the count is positive the buffer
  holds the byte the read transferred. When the read returns a negative count the result
  is \<open>FAILURE\<close> and the output is what it was.
\<close>

theorem gpio_get_value_reads_one_byte:
  assumes "descs w desc = Some d" and "linux_descs w (extra d) = Some l"
  shows "\<exists>st w' v' r data.
           gpio_get_value e w desc v = Some (st, w', v') \<and>
           r = reply e (trace w) (Read (value_fd l) 1) \<and>
           trace w' = trace w @ [(Read (value_fd l) 1, r)] \<and>
           data = (if 1 \<le> r then rdata e (trace w) else char_of (indet e (trace w) 0)) \<and>
           (0 \<le> r \<longrightarrow> st = SUCCESS \<and> v' = (if data = CHR ''0'' then GPIO_LOW else GPIO_HIGH)) \<and>
           (r < 0 \<longrightarrow> st = FAILURE \<and> v' = v)"
  using assms by (simp add: gpio_get_value_def prim_defs Let_def)

theorem gpio_get_value_reads_one_byte_witness:
  "descs world17 100 = Some desc17 \<and> linux_descs world17 (extra desc17) = Some linux17 \<and>
   (\<exists>st w' v' r data.
      gpio_get_value (scripted [1] (CHR ''0'') 49) world17 100 7 = Some (st, w', v') \<and>
      r = reply (scripted [1] (CHR ''0'') 49) (trace world17) (Read (value_fd linux17) 1) \<and>
      trace w' = trace world17 @ [(Read (value_fd linux17) 1, r)] \<and>
      data = (if 1 \<le> r then rdata (scripted [1] (CHR ''0'') 49) (trace world17)
              else char_of (indet (scripted [1] (CHR ''0'') 49) (trace world17) 0)) \<and>
      (0 \<le> r \<longrightarrow> st = SUCCESS \<and> v' = (if data = CHR ''0'' then GPIO_LOW else GPIO_HIGH)) \<and>
      (r < 0 \<longrightarrow> st = FAILURE \<and> v' = 7))"
  using world17_desc world17_linux
    gpio_get_value_reads_one_byte [OF world17_desc world17_linux,
      of "scripted [1] (CHR ''0'') 49" 7]
  by simp

text \<open>
  C10. On a valid handle, when the one-byte read returns the count 0, \<open>gpio_get_value\<close>
  still returns \<open>SUCCESS\<close>, and the level it stores is decoded from the indeterminate byte
  the local buffer held before the read, not from anything the read delivered. The result
  is \<open>FAILURE\<close> only when the count is strictly negative.
\<close>

theorem gpio_get_value_zero_count:
  assumes "descs w desc = Some d" and "linux_descs w (extra d) = Some l"
  shows "(reply e (trace w) (Read (value_fd l) 1) = 0 \<longrightarrow>
            gpio_get_value e w desc v =
              Some (SUCCESS, w\<lparr>trace := trace w @ [(Read (value_fd l) 1, 0)]\<rparr>,
                    if char_of (indet e (trace w) 0) = CHR ''0'' then GPIO_LOW else GPIO_HIGH)) \<and>
         ((\<exists>w' v'. gpio_get_value e w desc v = Some (FAILURE, w', v')) \<longleftrightarrow>
            reply e (trace w) (Read (value_fd l) 1) < 0)"
  using assms by (simp add: gpio_get_value_def prim_defs Let_def)

theorem gpio_get_value_zero_count_witness:
  "descs world17 100 = Some desc17 \<and> linux_descs world17 (extra desc17) = Some linux17 \<and>
   reply (scripted [0] (CHR ''0'') 49) (trace world17) (Read (value_fd linux17) 1) = 0 \<and>
   gpio_get_value (scripted [0] (CHR ''0'') 49) world17 100 0 =
     Some (SUCCESS, world17\<lparr>trace := trace world17 @ [(Read (value_fd linux17) 1, 0)]\<rparr>,
           GPIO_HIGH)"
proof -
  have r: "reply (scripted [0] (CHR ''0'') 49) (trace world17) (Read (value_fd linux17) 1) = 0"
    by (simp add: scripted_def world17_def)
  have j: "char_of (indet (scripted [0] (CHR ''0'') 49) (trace world17) 0) \<noteq> CHR ''0''"
    by (simp add: scripted_def char_of_def)
  show ?thesis
    using world17_desc world17_linux r j
      gpio_get_value_zero_count [OF world17_desc world17_linux,
        of "scripted [0] (CHR ''0'') 49" 0]
    by simp
qed

subsection \<open>Acquiring a pin\<close>


text \<open>The calls of a failed \<open>gpio_get\<close>, one shape for each step that can fail.\<close>

lemma gpio_get_failure:
  assumes "gpio_get e w desc param = (FAILURE, w', desc')"
  shows "desc' = desc \<and>
    (\<exists>a b efd wr cl dfd vfd c2.
       trace w' = trace w @ [(Malloc_gpio_desc, NULL)]
     \<or> a \<noteq> NULL \<and> descs w' a = None \<and>
       trace w' = trace w @ [(Malloc_gpio_desc, a), (Malloc_linux_gpio_desc, NULL), (Free a, 0)]
     \<or> a \<noteq> NULL \<and> b \<noteq> NULL \<and> descs w' a = None \<and> linux_descs w' b = None \<and>
       (efd < 0 \<and>
        trace w' = trace w @
          [(Malloc_gpio_desc, a), (Malloc_linux_gpio_desc, b),
           (Open ''/sys/class/gpio/export'' O_WRONLY, efd),
           (Free b, 0), (Free a, 0)]
      \<or> 0 \<le> efd \<and> (wr < 0 \<or> cl < 0) \<and>
        trace w' = trace w @
          [(Malloc_gpio_desc, a), (Malloc_linux_gpio_desc, b),
           (Open ''/sys/class/gpio/export'' O_WRONLY, efd),
           (Write efd (sprintf_d (sint (gpio_init_param.number param))), wr),
           (Close efd, cl),
           (Free b, 0), (Free a, 0)]
      \<or> 0 \<le> efd \<and> 0 \<le> wr \<and> 0 \<le> cl \<and> dfd < 0 \<and>
        trace w' = trace w @
          [(Malloc_gpio_desc, a), (Malloc_linux_gpio_desc, b),
           (Open ''/sys/class/gpio/export'' O_WRONLY, efd),
           (Write efd (sprintf_d (sint (gpio_init_param.number param))), wr),
           (Close efd, cl),
           (Open (direction_path (gpio_init_param.number param)) O_WRONLY, dfd),
           (Free b, 0), (Free a, 0)]
      \<or> 0 \<le> efd \<and> 0 \<le> wr \<and> 0 \<le> cl \<and> 0 \<le> dfd \<and> vfd < 0 \<and>
        trace w' = trace w @
          [(Malloc_gpio_desc, a), (Malloc_linux_gpio_desc, b),
           (Open ''/sys/class/gpio/export'' O_WRONLY, efd),
           (Write efd (sprintf_d (sint (gpio_init_param.number param))), wr),
           (Close efd, cl),
           (Open (direction_path (gpio_init_param.number param)) O_WRONLY, dfd),
           (Open (value_path (gpio_init_param.number param)) O_WRONLY, vfd),
           (Close dfd, c2),
           (Free b, 0), (Free a, 0)]))"
  using assms
  apply (simp add: get_defs prim_defs cstr_def Let_def split: if_splits)
  apply auto
  done



lemma refuse17_run:
  "gpio_get (scripted [100, 200, 3, 2, 0, 4, -1] (CHR ''1'') 0) world0 NULL pin17 =
     (FAILURE, refused17, NULL)"
  by (simp add: get_defs prim_defs scripted_def world0_def pin17_def refused17_def
      sprintf_d_17 direction_path_def value_path_def cstr_def NULL_def Let_def)







text \<open>
  C9. \<open>gpio_get_optional\<close> runs \<open>gpio_get\<close> and returns \<open>SUCCESS\<close> whatever \<open>gpio_get\<close>
  returned. The world and the caller's pointer are exactly as \<open>gpio_get\<close> left them, and
  when \<open>gpio_get\<close> failed the caller's pointer is what it was before the call.
\<close>

theorem gpio_get_optional_always_succeeds:
  "\<exists>st w' desc'. gpio_get e w desc param = (st, w', desc') \<and>
     gpio_get_optional e w desc param = (SUCCESS, w', desc') \<and>
     (st = FAILURE \<longrightarrow> desc' = desc)"
proof -
  obtain st w' desc' where g: "gpio_get e w desc param = (st, w', desc')"
    by (cases "gpio_get e w desc param") auto
  then have "gpio_get_optional e w desc param = (SUCCESS, w', desc')"
    by (simp add: gpio_get_optional_def)
  moreover have "st = FAILURE \<longrightarrow> desc' = desc"
    using g gpio_get_failure by blast
  ultimately show ?thesis using g by simp
qed

theorem gpio_get_optional_always_succeeds_witness:
  "gpio_get (scripted [100, 200, 3, 2, 0, 4, -1] (CHR ''1'') 0) world0 NULL pin17 =
     (FAILURE, refused17, NULL) \<and>
   gpio_get_optional (scripted [100, 200, 3, 2, 0, 4, -1] (CHR ''1'') 0) world0 NULL pin17 =
     (SUCCESS, refused17, NULL)"
  using refuse17_run
    gpio_get_optional_always_succeeds
      [of "scripted [100, 200, 3, 2, 0, 4, -1] (CHR ''1'') 0" world0 NULL pin17]
  by auto

subsection \<open>Releasing a pin\<close>

lemma remove17_run:
  "\<exists>w'. gpio_remove (scripted [0, 0, 6, 2, 0] (CHR ''1'') 0) world17 100 = Some (SUCCESS, w') \<and>
     trace w' = [(Close 4, 0), (Close 5, 0), (Open ''/sys/class/gpio/unexport'' O_WRONLY, 6),
        (Write 6 ''17'', 2), (Close 6, 0), (Free 200, 0), (Free 100, 0)] \<and>
     descs w' 100 = None \<and> linux_descs w' 200 = None"
  by (simp add: gpio_remove_def prim_defs cstr_def Let_def world17_def desc17_def linux17_def
      scripted_def sprintf_d_17)

text \<open>
  C2. On a valid handle, \<open>gpio_remove\<close> makes its calls in this order: close the direction
  descriptor, close the value descriptor, open \<open>/sys/class/gpio/unexport\<close> for writing,
  write the decimal pin number to it, close it, and then free the platform descriptor and
  the handle. Each of \<open>r1\<close>, \<open>r2\<close>, \<open>fd\<close>, \<open>r4\<close>, \<open>r5\<close> is what the environment returns
  for that call after the calls before it. The first of them that is negative ends the
  operation with \<open>FAILURE\<close>: nothing is called after it, nothing done before it is undone,
  and the heap is as it was. When none is negative the result is \<open>SUCCESS\<close>, all five
  calls were made and both blocks were freed; so the handle is freed exactly when every
  step before succeeded. For a non-negative pin number the bytes written to \<open>unexport\<close>
  are decimal digits only, they read back as the number, and there are as many of them as
  the number has digits.
\<close>

theorem gpio_remove_sequence:
  assumes "descs w desc = Some d" and "linux_descs w (extra d) = Some l"
  shows "\<exists>st w' r1 r2 fd r4 r5 pin.
    gpio_remove e w desc = Some (st, w') \<and>
    pin = sprintf_d (sint (number d)) \<and>
    r1 = reply e (trace w) (Close (direction_fd l)) \<and>
    r2 = reply e (trace w @ [(Close (direction_fd l), r1)]) (Close (value_fd l)) \<and>
    fd = reply e (trace w @ [(Close (direction_fd l), r1), (Close (value_fd l), r2)])
           (Open ''/sys/class/gpio/unexport'' O_WRONLY) \<and>
    r4 = reply e (trace w @ [(Close (direction_fd l), r1), (Close (value_fd l), r2),
           (Open ''/sys/class/gpio/unexport'' O_WRONLY, fd)]) (Write fd pin) \<and>
    r5 = reply e (trace w @ [(Close (direction_fd l), r1), (Close (value_fd l), r2),
           (Open ''/sys/class/gpio/unexport'' O_WRONLY, fd), (Write fd pin, r4)]) (Close fd) \<and>
    (0 \<le> sint (number d) \<longrightarrow>
       (\<forall>c \<in> set pin. c \<in> set ''0123456789'') \<and>
       int (digits_value pin) = sint (number d) \<and>
       nat (sint (number d)) < 10 ^ length pin \<and>
       (length pin = 1 \<or> 10 ^ (length pin - 1) \<le> nat (sint (number d)))) \<and>
    (st = SUCCESS \<longleftrightarrow> 0 \<le> r1 \<and> 0 \<le> r2 \<and> 0 \<le> fd \<and> 0 \<le> r4 \<and> 0 \<le> r5) \<and>
    (r1 < 0 \<and> st = FAILURE \<and> descs w' = descs w \<and> linux_descs w' = linux_descs w \<and>
       trace w' = trace w @ [(Close (direction_fd l), r1)]
   \<or> 0 \<le> r1 \<and> r2 < 0 \<and> st = FAILURE \<and>
       descs w' = descs w \<and> linux_descs w' = linux_descs w \<and>
       trace w' = trace w @ [(Close (direction_fd l), r1), (Close (value_fd l), r2)]
   \<or> 0 \<le> r1 \<and> 0 \<le> r2 \<and> fd < 0 \<and> st = FAILURE \<and>
       descs w' = descs w \<and> linux_descs w' = linux_descs w \<and>
       trace w' = trace w @ [(Close (direction_fd l), r1), (Close (value_fd l), r2),
         (Open ''/sys/class/gpio/unexport'' O_WRONLY, fd)]
   \<or> 0 \<le> r1 \<and> 0 \<le> r2 \<and> 0 \<le> fd \<and> r4 < 0 \<and> st = FAILURE \<and>
       descs w' = descs w \<and> linux_descs w' = linux_descs w \<and>
       trace w' = trace w @ [(Close (direction_fd l), r1), (Close (value_fd l), r2),
         (Open ''/sys/class/gpio/unexport'' O_WRONLY, fd), (Write fd pin, r4)]
   \<or> 0 \<le> r1 \<and> 0 \<le> r2 \<and> 0 \<le> fd \<and> 0 \<le> r4 \<and> r5 < 0 \<and> st = FAILURE \<and>
       descs w' = descs w \<and> linux_descs w' = linux_descs w \<and>
       trace w' = trace w @ [(Close (direction_fd l), r1), (Close (value_fd l), r2),
         (Open ''/sys/class/gpio/unexport'' O_WRONLY, fd), (Write fd pin, r4), (Close fd, r5)]
   \<or> 0 \<le> r1 \<and> 0 \<le> r2 \<and> 0 \<le> fd \<and> 0 \<le> r4 \<and> 0 \<le> r5 \<and> st = SUCCESS \<and>
       descs w' = (descs w)(desc := None) \<and>
       linux_descs w' = (linux_descs w)(extra d := None) \<and>
       trace w' = trace w @ [(Close (direction_fd l), r1), (Close (value_fd l), r2),
         (Open ''/sys/class/gpio/unexport'' O_WRONLY, fd), (Write fd pin, r4), (Close fd, r5),
         (Free (extra d), 0), (Free desc, 0)])"
proof -
  let ?pin = "sprintf_d (sint (number d))"
  let ?r1 = "reply e (trace w) (Close (direction_fd l))"
  let ?r2 = "reply e (trace w @ [(Close (direction_fd l), ?r1)]) (Close (value_fd l))"
  let ?fd = "reply e (trace w @ [(Close (direction_fd l), ?r1), (Close (value_fd l), ?r2)])
           (Open ''/sys/class/gpio/unexport'' O_WRONLY)"
  let ?r4 = "reply e (trace w @ [(Close (direction_fd l), ?r1), (Close (value_fd l), ?r2),
           (Open ''/sys/class/gpio/unexport'' O_WRONLY, ?fd)]) (Write ?fd ?pin)"
  let ?r5 = "reply e (trace w @ [(Close (direction_fd l), ?r1), (Close (value_fd l), ?r2),
           (Open ''/sys/class/gpio/unexport'' O_WRONLY, ?fd), (Write ?fd ?pin, ?r4)]) (Close ?fd)"
  have "\<exists>x. gpio_remove e w desc = Some x"
    using assms by (simp add: gpio_remove_def)
  then obtain st w' where run: "gpio_remove e w desc = Some (st, w')"
    by force
  have status: "st = SUCCESS \<longleftrightarrow> 0 \<le> ?r1 \<and> 0 \<le> ?r2 \<and> 0 \<le> ?fd \<and> 0 \<le> ?r4 \<and> 0 \<le> ?r5"
    using assms run by (auto simp: gpio_remove_def prim_defs cstr_def Let_def split: if_splits)
  have shape:
   "?r1 < 0 \<and> st = FAILURE \<and> descs w' = descs w \<and> linux_descs w' = linux_descs w \<and>
       trace w' = trace w @ [(Close (direction_fd l), ?r1)]
   \<or> 0 \<le> ?r1 \<and> ?r2 < 0 \<and> st = FAILURE \<and>
       descs w' = descs w \<and> linux_descs w' = linux_descs w \<and>
       trace w' = trace w @ [(Close (direction_fd l), ?r1), (Close (value_fd l), ?r2)]
   \<or> 0 \<le> ?r1 \<and> 0 \<le> ?r2 \<and> ?fd < 0 \<and> st = FAILURE \<and>
       descs w' = descs w \<and> linux_descs w' = linux_descs w \<and>
       trace w' = trace w @ [(Close (direction_fd l), ?r1), (Close (value_fd l), ?r2),
         (Open ''/sys/class/gpio/unexport'' O_WRONLY, ?fd)]
   \<or> 0 \<le> ?r1 \<and> 0 \<le> ?r2 \<and> 0 \<le> ?fd \<and> ?r4 < 0 \<and> st = FAILURE \<and>
       descs w' = descs w \<and> linux_descs w' = linux_descs w \<and>
       trace w' = trace w @ [(Close (direction_fd l), ?r1), (Close (value_fd l), ?r2),
         (Open ''/sys/class/gpio/unexport'' O_WRONLY, ?fd), (Write ?fd ?pin, ?r4)]
   \<or> 0 \<le> ?r1 \<and> 0 \<le> ?r2 \<and> 0 \<le> ?fd \<and> 0 \<le> ?r4 \<and> ?r5 < 0 \<and> st = FAILURE \<and>
       descs w' = descs w \<and> linux_descs w' = linux_descs w \<and>
       trace w' = trace w @ [(Close (direction_fd l), ?r1), (Close (value_fd l), ?r2),
         (Open ''/sys/class/gpio/unexport'' O_WRONLY, ?fd), (Write ?fd ?pin, ?r4),
         (Close ?fd, ?r5)]
   \<or> 0 \<le> ?r1 \<and> 0 \<le> ?r2 \<and> 0 \<le> ?fd \<and> 0 \<le> ?r4 \<and> 0 \<le> ?r5 \<and> st = SUCCESS \<and>
       descs w' = (descs w)(desc := None) \<and>
       linux_descs w' = (linux_descs w)(extra d := None) \<and>
       trace w' = trace w @ [(Close (direction_fd l), ?r1), (Close (value_fd l), ?r2),
         (Open ''/sys/class/gpio/unexport'' O_WRONLY, ?fd), (Write ?fd ?pin, ?r4),
         (Close ?fd, ?r5), (Free (extra d), 0), (Free desc, 0)]"
    using assms run by (auto simp: gpio_remove_def prim_defs cstr_def Let_def split: if_splits)
  have dec: "0 \<le> sint (number d) \<longrightarrow>
       (\<forall>c \<in> set ?pin. c \<in> set ''0123456789'') \<and>
       int (digits_value ?pin) = sint (number d) \<and>
       nat (sint (number d)) < 10 ^ length ?pin \<and>
       (length ?pin = 1 \<or> 10 ^ (length ?pin - 1) \<le> nat (sint (number d)))"
    by (rule impI) (rule sprintf_d_nonneg)
  show ?thesis
    by (intro exI [of _ st] exI [of _ w'] exI [of _ ?r1] exI [of _ ?r2] exI [of _ ?fd]
          exI [of _ ?r4] exI [of _ ?r5] exI [of _ ?pin] conjI refl run dec status shape)
qed

theorem gpio_remove_sequence_witness:
  "descs world17 100 = Some desc17 \<and> linux_descs world17 (extra desc17) = Some linux17 \<and>
   (\<exists>st w' r1 r2 fd r4 r5 pin.
    gpio_remove (scripted [0, 0, 6, 2, 0] (CHR ''1'') 0) world17 100 = Some (st, w') \<and>
    pin = sprintf_d (sint (number desc17)) \<and>
    r1 = reply (scripted [0, 0, 6, 2, 0] (CHR ''1'') 0) (trace world17) (Close (direction_fd linux17)) \<and>
    r2 = reply (scripted [0, 0, 6, 2, 0] (CHR ''1'') 0) (trace world17 @ [(Close (direction_fd linux17), r1)]) (Close (value_fd linux17)) \<and>
    fd = reply (scripted [0, 0, 6, 2, 0] (CHR ''1'') 0) (trace world17 @ [(Close (direction_fd linux17), r1), (Close (value_fd linux17), r2)])
           (Open ''/sys/class/gpio/unexport'' O_WRONLY) \<and>
    r4 = reply (scripted [0, 0, 6, 2, 0] (CHR ''1'') 0) (trace world17 @ [(Close (direction_fd linux17), r1), (Close (value_fd linux17), r2),
           (Open ''/sys/class/gpio/unexport'' O_WRONLY, fd)]) (Write fd pin) \<and>
    r5 = reply (scripted [0, 0, 6, 2, 0] (CHR ''1'') 0) (trace world17 @ [(Close (direction_fd linux17), r1), (Close (value_fd linux17), r2),
           (Open ''/sys/class/gpio/unexport'' O_WRONLY, fd), (Write fd pin, r4)]) (Close fd) \<and>
    (0 \<le> sint (number desc17) \<longrightarrow>
       (\<forall>c \<in> set pin. c \<in> set ''0123456789'') \<and>
       int (digits_value pin) = sint (number desc17) \<and>
       nat (sint (number desc17)) < 10 ^ length pin \<and>
       (length pin = 1 \<or> 10 ^ (length pin - 1) \<le> nat (sint (number desc17)))) \<and>
    (st = SUCCESS \<longleftrightarrow> 0 \<le> r1 \<and> 0 \<le> r2 \<and> 0 \<le> fd \<and> 0 \<le> r4 \<and> 0 \<le> r5) \<and>
    (r1 < 0 \<and> st = FAILURE \<and> descs w' = descs world17 \<and> linux_descs w' = linux_descs world17 \<and>
       trace w' = trace world17 @ [(Close (direction_fd linux17), r1)]
   \<or> 0 \<le> r1 \<and> r2 < 0 \<and> st = FAILURE \<and>
       descs w' = descs world17 \<and> linux_descs w' = linux_descs world17 \<and>
       trace w' = trace world17 @ [(Close (direction_fd linux17), r1), (Close (value_fd linux17), r2)]
   \<or> 0 \<le> r1 \<and> 0 \<le> r2 \<and> fd < 0 \<and> st = FAILURE \<and>
       descs w' = descs world17 \<and> linux_descs w' = linux_descs world17 \<and>
       trace w' = trace world17 @ [(Close (direction_fd linux17), r1), (Close (value_fd linux17), r2),
         (Open ''/sys/class/gpio/unexport'' O_WRONLY, fd)]
   \<or> 0 \<le> r1 \<and> 0 \<le> r2 \<and> 0 \<le> fd \<and> r4 < 0 \<and> st = FAILURE \<and>
       descs w' = descs world17 \<and> linux_descs w' = linux_descs world17 \<and>
       trace w' = trace world17 @ [(Close (direction_fd linux17), r1), (Close (value_fd linux17), r2),
         (Open ''/sys/class/gpio/unexport'' O_WRONLY, fd), (Write fd pin, r4)]
   \<or> 0 \<le> r1 \<and> 0 \<le> r2 \<and> 0 \<le> fd \<and> 0 \<le> r4 \<and> r5 < 0 \<and> st = FAILURE \<and>
       descs w' = descs world17 \<and> linux_descs w' = linux_descs world17 \<and>
       trace w' = trace world17 @ [(Close (direction_fd linux17), r1), (Close (value_fd linux17), r2),
         (Open ''/sys/class/gpio/unexport'' O_WRONLY, fd), (Write fd pin, r4), (Close fd, r5)]
   \<or> 0 \<le> r1 \<and> 0 \<le> r2 \<and> 0 \<le> fd \<and> 0 \<le> r4 \<and> 0 \<le> r5 \<and> st = SUCCESS \<and>
       descs w' = (descs world17)(100 := None) \<and>
       linux_descs w' = (linux_descs world17)(extra desc17 := None) \<and>
       trace w' = trace world17 @ [(Close (direction_fd linux17), r1), (Close (value_fd linux17), r2),
         (Open ''/sys/class/gpio/unexport'' O_WRONLY, fd), (Write fd pin, r4), (Close fd, r5),
         (Free (extra desc17), 0), (Free 100, 0)])) \<and>
   (\<exists>w'. gpio_remove (scripted [0, 0, 6, 2, 0] (CHR ''1'') 0) world17 100 = Some (SUCCESS, w') \<and>
     trace w' = [(Close 4, 0), (Close 5, 0), (Open ''/sys/class/gpio/unexport'' O_WRONLY, 6),
        (Write 6 ''17'', 2), (Close 6, 0), (Free 200, 0), (Free 100, 0)] \<and>
     descs w' 100 = None \<and> linux_descs w' 200 = None)"
  by (rule conjI [OF world17_desc conjI [OF world17_linux conjI [OF
        gpio_remove_sequence [OF world17_desc world17_linux,
          of "scripted [0, 0, 6, 2, 0] (CHR ''1'') 0"] remove17_run]]])

end
